theory Spec2Isabelle
  imports Main "HOL-Library.Sublist" "HOL-Library.Word"
begin

section \<open>Python values\<close>

text \<open>
  A Python \<open>str\<close> is a sequence of Unicode code points, so it is modelled as a list of
  natural numbers. \<open>lit\<close> turns an ASCII literal of the source into such a list.
\<close>

type_synonym pystr = "nat list"

definition lit :: "string \<Rightarrow> pystr" where
  "lit s = map of_char s"

text \<open>
  The values \<open>json.loads\<close> and \<open>request.json\<close> produce: \<open>None\<close>, \<open>bool\<close>, \<open>int\<close>,
  \<open>float\<close> (kept as the bit pattern of the IEEE double), \<open>str\<close>, \<open>list\<close> and \<open>dict\<close>
  with string keys. A dict is an association list in insertion order, read with
  \<open>map_of\<close>.
\<close>

datatype json =
    JNull
  | JBool bool
  | JInt int
  | JFloat "64 word"
  | JStr pystr
  | JList "json list"
  | JDict "(pystr \<times> json) list"

datatype py_exception =
    TypeError
  | AttributeError
  | KeyError
  | RemoteError pystr

text \<open>Truth value of an object, as \<open>not data\<close> tests it.\<close>

fun truthy :: "json \<Rightarrow> bool" where
  "truthy JNull = False"
| "truthy (JBool b) = b"
| "truthy (JInt i) = (i \<noteq> 0)"
| "truthy (JFloat w) = (take_bit 63 w \<noteq> 0)"
| "truthy (JStr s) = (s \<noteq> [])"
| "truthy (JList xs) = (xs \<noteq> [])"
| "truthy (JDict kvs) = (kvs \<noteq> [])"

text \<open>
  \<open>k in x\<close> for a string \<open>k\<close>: key membership in a dict, element membership in a list,
  substring test in a string, \<open>TypeError\<close> on every other value.
\<close>

fun py_contains :: "json \<Rightarrow> pystr \<Rightarrow> py_exception + bool" where
  "py_contains (JDict kvs) k = Inr (map_of kvs k \<noteq> None)"
| "py_contains (JList xs) k = Inr (JStr k \<in> set xs)"
| "py_contains (JStr s) k = Inr (sublist k s)"
| "py_contains _ k = Inl TypeError"

text \<open>\<open>x[k]\<close> for a string \<open>k\<close>: only a dict can be indexed by a string.\<close>

fun py_getitem :: "json \<Rightarrow> pystr \<Rightarrow> py_exception + json" where
  "py_getitem (JDict kvs) k = (case map_of kvs k of None \<Rightarrow> Inl KeyError | Some v \<Rightarrow> Inr v)"
| "py_getitem _ k = Inl TypeError"

text \<open>\<open>x.get(k, default)\<close>: only a dict has the method.\<close>

fun py_get :: "json \<Rightarrow> pystr \<Rightarrow> json \<Rightarrow> py_exception + json" where
  "py_get (JDict kvs) k dflt = Inr (case map_of kvs k of None \<Rightarrow> dflt | Some v \<Rightarrow> v)"
| "py_get _ k dflt = Inl AttributeError"

text \<open>\<open>d[k] = v\<close> on a dict: an existing key keeps its place, a new one goes last.\<close>

fun setitem :: "pystr \<Rightarrow> json \<Rightarrow> (pystr \<times> json) list \<Rightarrow> (pystr \<times> json) list" where
  "setitem k v [] = [(k, v)]"
| "setitem k v ((k', v') # kvs) = (if k' = k then (k, v) # kvs else (k', v') # setitem k v kvs)"

definition bind_exc :: "py_exception + 'a \<Rightarrow> ('a \<Rightarrow> py_exception + 'b) \<Rightarrow> py_exception + 'b" where
  "bind_exc r f = (case r of Inl e \<Rightarrow> Inl e | Inr x \<Rightarrow> f x)"

subsection \<open>String methods\<close>

text \<open>\<open>str.isspace\<close> on one code point: the Unicode whitespace characters.\<close>

definition isspace :: "nat \<Rightarrow> bool" where
  "isspace c \<longleftrightarrow>
     (9 \<le> c \<and> c \<le> 13) \<or> (28 \<le> c \<and> c \<le> 32) \<or> c = 133 \<or> c = 160 \<or> c = 5760 \<or>
     (8192 \<le> c \<and> c \<le> 8202) \<or> c = 8232 \<or> c = 8233 \<or> c = 8239 \<or> c = 8287 \<or> c = 12288"

text \<open>\<open>s.strip()\<close>: whitespace removed at both ends.\<close>

definition strip :: "pystr \<Rightarrow> pystr" where
  "strip s = rev (dropWhile isspace (rev (dropWhile isspace s)))"

text \<open>\<open>s.split(d)\<close> for a separator of one character: one more part than separators.\<close>

fun split_on :: "nat \<Rightarrow> pystr \<Rightarrow> pystr list" where
  "split_on d [] = [[]]"
| "split_on d (c # cs) =
     (if c = d then [] # split_on d cs
      else (let r = split_on d cs in (c # hd r) # tl r))"

definition newline :: nat where "newline = 10"
definition semicolon :: nat where "semicolon = 59"
definition comma :: nat where "comma = 44"

section \<open>The response normalizer\<close>

definition k_match_explanation :: pystr where "k_match_explanation = lit ''match_explanation''"
definition k_strengths :: pystr where "k_strengths = lit ''strengths''"
definition k_gaps :: pystr where "k_gaps = lit ''gaps''"
definition k_recommendations :: pystr where "k_recommendations = lit ''recommendations''"

text \<open>\<open>[s.strip() for s in text.split(d) if s.strip()]\<close>\<close>

definition split_strip :: "nat \<Rightarrow> pystr \<Rightarrow> json list" where
  "split_strip d s = map (\<lambda>p. JStr (strip p)) (filter (\<lambda>p. strip p \<noteq> []) (split_on d s))"

text \<open>
  The block the source repeats for \<open>strengths\<close>, \<open>gaps\<close> and \<open>recommendations\<close>, with
  the key as a parameter. \<open>to_str\<close> is Python's builtin \<open>str\<close>.
\<close>

definition normalize_list_field ::
  "(json \<Rightarrow> pystr) \<Rightarrow> json \<Rightarrow> pystr \<Rightarrow> (pystr \<times> json) list \<Rightarrow> py_exception + (pystr \<times> json) list"
where
  "normalize_list_field to_str analysis key normalized =
     bind_exc (py_contains analysis key) (\<lambda>present.
       if \<not> present then Inr normalized
       else bind_exc (py_getitem analysis key) (\<lambda>v.
         case v of
           JList xs \<Rightarrow> Inr (setitem key (JList xs) normalized)
         | JStr s \<Rightarrow>
             if strip s \<noteq> [] then
               (if newline \<in> set s then Inr (setitem key (JList (split_strip newline s)) normalized)
                else if semicolon \<in> set s then Inr (setitem key (JList (split_strip semicolon s)) normalized)
                else if comma \<in> set s then Inr (setitem key (JList (split_strip comma s)) normalized)
                else Inr (setitem key (JList [JStr s]) normalized))
             else Inr normalized
         | _ \<Rightarrow> Inr (setitem key (JList [JStr (to_str v)]) normalized)))"

definition normalize_explanation ::
  "(json \<Rightarrow> pystr) \<Rightarrow> json \<Rightarrow> (pystr \<times> json) list \<Rightarrow> py_exception + (pystr \<times> json) list"
where
  "normalize_explanation to_str analysis normalized =
     bind_exc (py_contains analysis k_match_explanation) (\<lambda>present.
       if \<not> present then Inr normalized
       else bind_exc (py_getitem analysis k_match_explanation) (\<lambda>v.
         case v of
           JStr s \<Rightarrow> Inr (setitem k_match_explanation (JStr s) normalized)
         | _ \<Rightarrow> Inr (setitem k_match_explanation (JStr (to_str v)) normalized)))"

definition normalized_init :: "(pystr \<times> json) list" where
  "normalized_init =
     [(k_match_explanation, JStr []), (k_strengths, JList []),
      (k_gaps, JList []), (k_recommendations, JList [])]"

definition normalize_analysis_response :: "(json \<Rightarrow> pystr) \<Rightarrow> json \<Rightarrow> py_exception + json" where
  "normalize_analysis_response to_str analysis =
     bind_exc (normalize_explanation to_str analysis normalized_init) (\<lambda>n1.
     bind_exc (normalize_list_field to_str analysis k_strengths n1) (\<lambda>n2.
     bind_exc (normalize_list_field to_str analysis k_gaps n2) (\<lambda>n3.
     bind_exc (normalize_list_field to_str analysis k_recommendations n3) (\<lambda>n4.
       Inr (JDict n4)))))"

section \<open>The prompt builder\<close>

text \<open>
  An f-string field \<open>{v}\<close> is \<open>format(v, '')\<close>: a \<open>str\<close> is inserted as it is, every
  other value through \<open>str\<close>.
\<close>

definition py_format :: "(json \<Rightarrow> pystr) \<Rightarrow> json \<Rightarrow> pystr" where
  "py_format to_str v = (case v of JStr s \<Rightarrow> s | _ \<Rightarrow> to_str v)"

text \<open>Evaluating expressions from left to right: the first exception raised ends it.\<close>

fun collect :: "(py_exception + 'a) list \<Rightarrow> py_exception + 'a list" where
  "collect [] = Inr []"
| "collect (r # rs) = bind_exc r (\<lambda>x. bind_exc (collect rs) (\<lambda>xs. Inr (x # xs)))"

text \<open>The template line \<open>- Label: {obj.get('Key', 'N/A')}\<close>\<close>

definition field_line :: "(json \<Rightarrow> pystr) \<Rightarrow> json \<Rightarrow> string \<times> string \<Rightarrow> py_exception + pystr" where
  "field_line to_str obj lk =
     bind_exc (py_get obj (lit (snd lk)) (JStr (lit ''N/A''))) (\<lambda>v.
       Inr (lit ''- '' @ lit (fst lk) @ lit '': '' @ py_format to_str v))"

text \<open>Label and key of each line under \<open>JOB POSTING:\<close>, read from \<open>job_data\<close>.\<close>

definition job_fields :: "(string \<times> string) list" where
  "job_fields =
     [(''Title'', ''JobTitle''),
      (''Required Skills'', ''Required_Skills''),
      (''Preferred Skills'', ''PreferredSkills''),
      (''Qualifications'', ''Qualifications''),
      (''Responsibilities'', ''Key_Responsibilities''),
      (''Industry'', ''Industry''),
      (''Role'', ''Role''),
      (''Location'', ''JobLocation'')]"

text \<open>Label and key of each line under \<open>YOUR PROFILE:\<close>, read from \<open>member_data\<close>.\<close>

definition profile_fields :: "(string \<times> string) list" where
  "profile_fields =
     [(''Headline'', ''Headline''),
      (''Technical Skills'', ''TechnicalSkillNames''),
      (''Other Skills'', ''OtherSkills''),
      (''Experience'', ''Experience''),
      (''Job Titles'', ''JobTitles''),
      (''Education'', ''Education''),
      (''Communication Skills'', ''CommunicationNames''),
      (''Leadership Skills'', ''LeadershipNames''),
      (''Critical Thinking'', ''CriticalThinkingNames''),
      (''Collaboration'', ''CollaborationNames''),
      (''Character'', ''CharacterNames''),
      (''Creativity'', ''CreativityNames''),
      (''Growth Mindset'', ''GrowthMindsetNames''),
      (''Mindfulness'', ''MindfulnessNames''),
      (''Fortitude'', ''FortitudeNames''),
      (''City'', ''CityName'')]"

definition intro_lines :: "pystr list" where
  "intro_lines =
     [lit ''You are an AI career advisor analyzing a job match. Here's the data:'',
      lit '''']"

definition match_lines :: "(json \<Rightarrow> pystr) \<Rightarrow> json \<Rightarrow> pystr list" where
  "match_lines to_str match_percentage =
     [lit ''MATCH RESULT:'',
      lit ''- Match Percentage: '' @ py_format to_str match_percentage @ lit ''%'',
      lit '''']"

text \<open>The numbered lines under \<open>MATCHING ALGORITHM COMPONENTS:\<close>\<close>

definition algorithm_lines :: "pystr list" where
  "algorithm_lines =
     [lit ''1. Required Skills (30%): Job's Required Skills matched against your Technical Skills and Soft Skills (Character, Collaboration, Communication, Creativity, Critical Thinking, Fortitude, Growth Mindset, Leadership, Mindfulness) and Other Skills'',
      lit ''2. Preferred Skills (15%): Job's Preferred Skills matched against your Technical Skills and Other Skills'',
      lit ''3. Other Skills (10%): Job's Required & Preferred Skills matched against your Technical Skills and Other Skills'',
      lit ''4. Qualifications (15%): Job's Qualifications matched against your Education and Experience'',
      lit ''5. Responsibilities (15%): Job's Key Responsibilities matched against your Experience'',
      lit ''6. Industry (5%): Job's Industry matched against your Industry experience'',
      lit ''7. Role (5%): Job's Role matched against your Job Titles'',
      lit ''8. Location (5%): Job's Location matched against your City'']"

definition task_lines :: "(json \<Rightarrow> pystr) \<Rightarrow> json \<Rightarrow> pystr list" where
  "task_lines to_str match_percentage =
     [lit ''Based on the above information and matching algorithm, provide a detailed explanation of:'',
      lit ''1. Why your profile received a '' @ py_format to_str match_percentage @ lit ''% match score for this job'',
      lit ''2. Identify the strongest matching areas between your profile and the job'',
      lit ''3. Identify skills or qualifications gaps you should work on to improve your match percentage'',
      lit ''4. Provide 3-5 specific, actionable recommendations for how you can improve your match score'',
      lit '''']"

definition format_lines :: "pystr list" where
  "format_lines =
     [lit ''Format your response as a JSON with these keys:'',
      lit ''- match_explanation: (string) detailed explanation text'',
      lit ''- strengths: (array of strings) list of matching strengths'',
      lit ''- gaps: (array of strings) list of skill/qualification gaps'',
      lit ''- recommendations: (array of strings) list of actionable recommendations'',
      lit '''',
      lit ''IMPORTANT: strengths, gaps, and recommendations MUST be arrays of strings, not single strings or other formats.'']"

text \<open>Each line of the template followed by its line break.\<close>

definition unlines :: "pystr list \<Rightarrow> pystr" where
  "unlines ls = concat (map (\<lambda>l. l @ [newline]) ls)"

text \<open>
  The f-string of \<open>analyze_job_match\<close>: it opens with a line break, and the fields of
  \<open>job_data\<close> are read before those of \<open>member_data\<close>.
\<close>

definition build_prompt :: "(json \<Rightarrow> pystr) \<Rightarrow> json \<Rightarrow> json \<Rightarrow> json \<Rightarrow> py_exception + pystr" where
  "build_prompt to_str job_data member_data match_percentage =
     bind_exc (collect (map (field_line to_str job_data) job_fields)) (\<lambda>job_lines.
     bind_exc (collect (map (field_line to_str member_data) profile_fields)) (\<lambda>profile_lines.
       Inr ([newline] @
            unlines (intro_lines @
                     [lit ''JOB POSTING:''] @ job_lines @ [lit ''''] @
                     [lit ''YOUR PROFILE:''] @ profile_lines @ [lit ''''] @
                     match_lines to_str match_percentage @
                     [lit ''MATCHING ALGORITHM COMPONENTS:''] @ algorithm_lines @ [lit ''''] @
                     task_lines to_str match_percentage @
                     format_lines))))"

section \<open>The analysis operation and the endpoint\<close>

text \<open>
  What the code takes from outside: the credential read from the environment at import,
  Python's \<open>str\<close> on values and on exceptions, \<open>json.loads\<close> (\<open>None\<close> stands for
  \<open>JSONDecodeError\<close>) and the remote completion call, which raises or gives the content of
  the first choice (\<open>None\<close> when the message has no content).
\<close>

record env =
  openai_api_key :: "pystr option"
  py_str :: "json \<Rightarrow> pystr"
  exc_str :: "py_exception \<Rightarrow> pystr"
  json_loads :: "pystr \<Rightarrow> json option"
  chat_completion :: "pystr \<Rightarrow> py_exception + pystr option"

text \<open>\<open>not openai_api_key\<close>: the variable is unset or empty.\<close>

definition key_missing :: "env \<Rightarrow> bool" where
  "key_missing e = (case openai_api_key e of None \<Rightarrow> True | Some k \<Rightarrow> k = [])"

definition k_error :: pystr where "k_error = lit ''error''"
definition k_data :: pystr where "k_data = lit ''data''"
definition k_member :: pystr where "k_member = lit ''member''"
definition k_jobpost :: pystr where "k_jobpost = lit ''jobpost''"
definition k_Matching_Percentage :: pystr where "k_Matching_Percentage = lit ''Matching_Percentage''"
definition k_status :: pystr where "k_status = lit ''status''"
definition k_analysis :: pystr where "k_analysis = lit ''analysis''"

definition config_error :: json where
  "config_error =
     JDict [(k_error, JStr (lit ''OpenAI API key not configured. Please set the OPENAI_API_KEY environment variable.''))]"

definition upstream_error :: "env \<Rightarrow> py_exception \<Rightarrow> json" where
  "upstream_error e x = JDict [(k_error, JStr (lit ''Error analyzing job match: '' @ exc_str e x))]"

text \<open>\<open>data.get("data", {}).get(key, default)\<close>\<close>

definition get_nested :: "json \<Rightarrow> pystr \<Rightarrow> json \<Rightarrow> py_exception + json" where
  "get_nested data key dflt = bind_exc (py_get data k_data (JDict [])) (\<lambda>d. py_get d key dflt)"

text \<open>The dict the source normalizes when the completion is not JSON.\<close>

definition plain_text_analysis :: "pystr \<Rightarrow> json" where
  "plain_text_analysis content =
     JDict [(k_match_explanation, JStr content), (k_strengths, JList []),
            (k_gaps, JList []), (k_recommendations, JList [])]"

text \<open>
  The body of the inner \<open>try\<close>, with its \<open>except json.JSONDecodeError\<close>. Reading
  \<open>json.loads(None)\<close> raises \<open>TypeError\<close>, which that handler does not catch.
\<close>

definition parse_completion :: "env \<Rightarrow> pystr option \<Rightarrow> py_exception + json" where
  "parse_completion e content =
     (case content of
        None \<Rightarrow> Inl TypeError
      | Some analysis_text \<Rightarrow>
          (case json_loads e analysis_text of
             Some analysis \<Rightarrow> normalize_analysis_response (py_str e) analysis
           | None \<Rightarrow> normalize_analysis_response (py_str e) (plain_text_analysis analysis_text)))"

text \<open>
  The part of \<open>analyze_job_match\<close> before its \<open>try\<close>: the three reads of \<open>data\<close> and
  the f-string. \<open>analyze_job_match\<close> itself returns its result, or raises, together with
  the prompts it sent to the completion service, in order. The outer \<open>try\<close> turns every
  exception of the call and of the parsing into an error object.
\<close>

definition request_prompt :: "(json \<Rightarrow> pystr) \<Rightarrow> json \<Rightarrow> py_exception + pystr" where
  "request_prompt to_str data =
     bind_exc (get_nested data k_member (JDict [])) (\<lambda>member_data.
     bind_exc (get_nested data k_jobpost (JDict [])) (\<lambda>job_data.
     bind_exc (get_nested data k_Matching_Percentage (JInt 0)) (\<lambda>match_percentage.
       build_prompt to_str job_data member_data match_percentage)))"

definition analyze_job_match :: "env \<Rightarrow> json \<Rightarrow> (py_exception + json) \<times> pystr list" where
  "analyze_job_match e data =
     (if key_missing e then (Inr config_error, [])
      else
        (case request_prompt (py_str e) data of
           Inl x \<Rightarrow> (Inl x, [])
         | Inr prompt \<Rightarrow>
             (case bind_exc (chat_completion e prompt) (parse_completion e) of
                Inl x \<Rightarrow> (Inr (upstream_error e x), [prompt])
              | Inr analysis \<Rightarrow> (Inr analysis, [prompt]))))"

record http_response =
  status_code :: nat
  body :: json

definition error_body :: "pystr \<Rightarrow> json" where
  "error_body msg = JDict [(k_error, JStr msg)]"

definition missing_data_response :: http_response where
  "missing_data_response =
     \<lparr>status_code = 400, body = error_body (lit ''Invalid data format. Missing 'data' field.'')\<rparr>"

definition server_error_response :: "env \<Rightarrow> py_exception \<Rightarrow> http_response" where
  "server_error_response e x = \<lparr>status_code = 500, body = error_body (exc_str e x)\<rparr>"

definition success_response :: "json \<Rightarrow> json \<Rightarrow> http_response" where
  "success_response match_percentage analysis =
     \<lparr>status_code = 200,
      body = JDict [(k_status, JStr (lit ''success'')),
                    (k_data, JDict [(k_Matching_Percentage, match_percentage),
                                    (k_analysis, analysis)])]\<rparr>"

text \<open>
  The handler of \<open>POST /analyze_job_match\<close>. \<open>request_json\<close> is what reading
  \<open>request.json\<close> does: it raises, or gives the decoded body (\<open>None\<close> is \<open>JNull\<close>).
  The result is the response and the prompts sent to the completion service.
\<close>

definition analyze_match :: "env \<Rightarrow> py_exception + json \<Rightarrow> http_response \<times> pystr list" where
  "analyze_match e request_json =
     (case request_json of
        Inl x \<Rightarrow> (server_error_response e x, [])
      | Inr data \<Rightarrow>
          (if \<not> truthy data then (missing_data_response, [])
           else
             (case py_contains data k_data of
                Inl x \<Rightarrow> (server_error_response e x, [])
              | Inr present \<Rightarrow>
                  (if \<not> present then (missing_data_response, [])
                   else
                     (case analyze_job_match e data of
                        (Inl x, sent) \<Rightarrow> (server_error_response e x, sent)
                      | (Inr analysis, sent) \<Rightarrow>
                          (case get_nested data k_Matching_Percentage (JInt 0) of
                             Inl x \<Rightarrow> (server_error_response e x, sent)
                           | Inr match_percentage \<Rightarrow>
                               (success_response match_percentage analysis, sent)))))))"

section \<open>What the specification says, in the same vocabulary\<close>

text \<open>A field of the normalizer's result, when there is a result and it is a dict.\<close>

definition out_field :: "py_exception + json \<Rightarrow> pystr \<Rightarrow> json option" where
  "out_field r k = (case r of Inr (JDict kvs) \<Rightarrow> map_of kvs k | _ \<Rightarrow> None)"

fun nonempty_str :: "json \<Rightarrow> bool" where
  "nonempty_str (JStr s) = (s \<noteq> [])"
| "nonempty_str _ = False"

fun is_dict :: "json \<Rightarrow> bool" where
  "is_dict (JDict kvs) = True"
| "is_dict _ = False"

text \<open>The parts between separators, trimmed, the empty ones dropped.\<close>

definition trimmed_parts :: "nat \<Rightarrow> pystr \<Rightarrow> json list" where
  "trimmed_parts d s = map JStr (filter (\<lambda>p. p \<noteq> []) (map strip (split_on d s)))"

text \<open>
  Splitting on the first delimiter that occurs, in the priority order newline, semicolon,
  comma; the whole string alone when none occurs.
\<close>

definition spec_split :: "pystr \<Rightarrow> json list" where
  "spec_split s =
     (case find (\<lambda>d. d \<in> set s) [newline, semicolon, comma] of
        None \<Rightarrow> [JStr s]
      | Some d \<Rightarrow> trimmed_parts d s)"

text \<open>The policy for one list field, from the value the input has under the key.\<close>

definition spec_list_field :: "(json \<Rightarrow> pystr) \<Rightarrow> json option \<Rightarrow> json list" where
  "spec_list_field to_str v =
     (case v of
        None \<Rightarrow> []
      | Some (JList xs) \<Rightarrow> xs
      | Some (JStr s) \<Rightarrow> (if strip s = [] then [] else spec_split s)
      | Some x \<Rightarrow> [JStr (to_str x)])"

definition spec_explanation :: "(json \<Rightarrow> pystr) \<Rightarrow> json option \<Rightarrow> pystr" where
  "spec_explanation to_str v =
     (case v of None \<Rightarrow> [] | Some (JStr s) \<Rightarrow> s | Some x \<Rightarrow> to_str x)"

text \<open>\<open>d.join(parts)\<close> for a separator of one character.\<close>

fun join_with :: "nat \<Rightarrow> pystr list \<Rightarrow> pystr" where
  "join_with d [] = []"
| "join_with d [p] = p"
| "join_with d (p # q # ps) = p @ d # join_with d (q # ps)"

text \<open>A labelled line of the prompt, with the placeholder for an absent key.\<close>

definition field_text :: "(json \<Rightarrow> pystr) \<Rightarrow> (pystr \<times> json) list \<Rightarrow> string \<times> string \<Rightarrow> pystr" where
  "field_text to_str d lk =
     lit ''- '' @ lit (fst lk) @ lit '': '' @
     (case map_of d (lit (snd lk)) of None \<Rightarrow> lit ''N/A'' | Some v \<Rightarrow> py_format to_str v)"

text \<open>A natural number in decimal.\<close>

fun dec :: "nat \<Rightarrow> pystr" where
  "dec n = (if n < 10 then [48 + n] else dec (n div 10) @ [48 + n mod 10])"

declare dec.simps [simp del]

text \<open>The components of the matching algorithm: number, name and weight in percent.\<close>

definition spec_components :: "(nat \<times> string \<times> nat) list" where
  "spec_components =
     [(1, ''Required Skills'', 30), (2, ''Preferred Skills'', 15), (3, ''Other Skills'', 10),
      (4, ''Qualifications'', 15), (5, ''Responsibilities'', 15), (6, ''Industry'', 5),
      (7, ''Role'', 5), (8, ''Location'', 5)]"

definition component_heading :: "nat \<times> string \<times> nat \<Rightarrow> pystr" where
  "component_heading c =
     dec (fst c) @ lit ''. '' @ lit (fst (snd c)) @ lit '' ('' @ dec (snd (snd c)) @ lit ''%): ''"

text \<open>The fields the model is told to return, with the type asked of each.\<close>

definition spec_response_fields :: "(string \<times> string) list" where
  "spec_response_fields =
     [(''match_explanation'', ''string''), (''strengths'', ''array of strings''),
      (''gaps'', ''array of strings''), (''recommendations'', ''array of strings'')]"

definition response_field_heading :: "string \<times> string \<Rightarrow> pystr" where
  "response_field_heading f = lit ''- '' @ lit (fst f) @ lit '': ('' @ lit (snd f) @ lit '') ''"

section \<open>The normalizer on a mapping\<close>

lemma keys_distinct:
  "k_match_explanation \<noteq> k_strengths" "k_match_explanation \<noteq> k_gaps"
  "k_match_explanation \<noteq> k_recommendations" "k_strengths \<noteq> k_gaps"
  "k_strengths \<noteq> k_recommendations" "k_gaps \<noteq> k_recommendations"
  "k_strengths \<noteq> k_match_explanation" "k_gaps \<noteq> k_match_explanation"
  "k_recommendations \<noteq> k_match_explanation" "k_gaps \<noteq> k_strengths"
  "k_recommendations \<noteq> k_strengths" "k_recommendations \<noteq> k_gaps"
  by (simp_all add: k_match_explanation_def k_strengths_def k_gaps_def k_recommendations_def lit_def)

lemma trimmed_parts_eq: "split_strip d s = trimmed_parts d s"
  by (simp add: split_strip_def trimmed_parts_def filter_map comp_def)

lemma list_field_dict:
  "normalize_list_field ts (JDict kvs) key n =
     Inr (if map_of kvs key = None \<or> (\<exists>s. map_of kvs key = Some (JStr s) \<and> strip s = []) then n
          else setitem key (JList (spec_list_field ts (map_of kvs key))) n)"
  by (auto simp add: normalize_list_field_def bind_exc_def spec_list_field_def spec_split_def
      trimmed_parts_eq split: option.splits json.splits)

lemma spec_list_field_kept:
  "map_of kvs key = None \<or> (\<exists>s. map_of kvs key = Some (JStr s) \<and> strip s = [])
     \<Longrightarrow> spec_list_field ts (map_of kvs key) = []"
  by (auto simp add: spec_list_field_def)

lemma explanation_dict:
  "normalize_explanation ts (JDict kvs) ((k_match_explanation, JStr []) # n) =
     Inr ((k_match_explanation, JStr (spec_explanation ts (map_of kvs k_match_explanation))) # n)"
  by (auto simp add: normalize_explanation_def bind_exc_def spec_explanation_def
      split: option.splits json.splits)

lemma strengths_dict:
  "normalize_list_field ts (JDict kvs) k_strengths
     [(k_match_explanation, a), (k_strengths, JList []), (k_gaps, c), (k_recommendations, d)] =
   Inr [(k_match_explanation, a),
        (k_strengths, JList (spec_list_field ts (map_of kvs k_strengths))),
        (k_gaps, c), (k_recommendations, d)]"
  using spec_list_field_kept [of kvs k_strengths ts]
  by (auto simp add: list_field_dict keys_distinct)

lemma gaps_dict:
  "normalize_list_field ts (JDict kvs) k_gaps
     [(k_match_explanation, a), (k_strengths, b), (k_gaps, JList []), (k_recommendations, d)] =
   Inr [(k_match_explanation, a), (k_strengths, b),
        (k_gaps, JList (spec_list_field ts (map_of kvs k_gaps))), (k_recommendations, d)]"
  using spec_list_field_kept [of kvs k_gaps ts]
  by (auto simp add: list_field_dict keys_distinct)

lemma recommendations_dict:
  "normalize_list_field ts (JDict kvs) k_recommendations
     [(k_match_explanation, a), (k_strengths, b), (k_gaps, c), (k_recommendations, JList [])] =
   Inr [(k_match_explanation, a), (k_strengths, b), (k_gaps, c),
        (k_recommendations, JList (spec_list_field ts (map_of kvs k_recommendations)))]"
  using spec_list_field_kept [of kvs k_recommendations ts]
  by (auto simp add: list_field_dict keys_distinct)

text \<open>On a mapping the normalizer never raises, and each field follows the policy.\<close>

lemma normalize_dict:
  "normalize_analysis_response ts (JDict kvs) =
     Inr (JDict
       [(k_match_explanation, JStr (spec_explanation ts (map_of kvs k_match_explanation))),
        (k_strengths, JList (spec_list_field ts (map_of kvs k_strengths))),
        (k_gaps, JList (spec_list_field ts (map_of kvs k_gaps))),
        (k_recommendations, JList (spec_list_field ts (map_of kvs k_recommendations)))])"
  by (simp add: normalize_analysis_response_def normalized_init_def explanation_dict
      strengths_dict gaps_dict recommendations_dict bind_exc_def)

lemma out_field_list:
  "key \<in> {k_strengths, k_gaps, k_recommendations} \<Longrightarrow>
   out_field (normalize_analysis_response ts (JDict kvs)) key =
     Some (JList (spec_list_field ts (map_of kvs key)))"
  by (auto simp add: normalize_dict out_field_def keys_distinct)

lemma out_field_explanation:
  "out_field (normalize_analysis_response ts (JDict kvs)) k_match_explanation =
     Some (JStr (spec_explanation ts (map_of kvs k_match_explanation)))"
  by (simp add: normalize_dict out_field_def)

subsection \<open>Splitting\<close>

lemma strip_nonempty: "strip p \<noteq> [] \<Longrightarrow> p \<noteq> []"
  by (auto simp add: strip_def)

lemma trimmed_parts_nonempty: "list_all nonempty_str (trimmed_parts d s)"
  by (simp add: trimmed_parts_def list_all_iff)

lemma spec_split_nonempty: "strip s \<noteq> [] \<Longrightarrow> list_all nonempty_str (spec_split s)"
  by (auto simp add: spec_split_def trimmed_parts_nonempty strip_nonempty split: option.splits)

lemma split_on_nonempty: "split_on d s \<noteq> []"
  by (induction s) (auto simp add: Let_def)

text \<open>\<open>split_on\<close> is Python's \<open>split\<close>: joining its parts gives the string back.\<close>

lemma split_on_join: "join_with d (split_on d s) = s"
proof (induction s)
  case Nil
  show ?case by simp
next
  case (Cons c cs)
  obtain p ps where r: "split_on d cs = p # ps"
    using split_on_nonempty [of d cs] by (cases "split_on d cs") auto
  show ?case
  proof (cases "c = d")
    case True
    with Cons r show ?thesis by simp
  next
    case False
    with Cons r show ?thesis by (cases ps) auto
  qed
qed

text \<open>No part holds the separator.\<close>

lemma split_on_free: "p \<in> set (split_on d s) \<Longrightarrow> d \<notin> set p"
proof (induction s arbitrary: p)
  case Nil
  then show ?case by simp
next
  case (Cons c cs)
  obtain q qs where r: "split_on d cs = q # qs"
    using split_on_nonempty [of d cs] by (cases "split_on d cs") auto
  show ?case
  proof (cases "c = d")
    case True
    with Cons show ?thesis by auto
  next
    case False
    with Cons.prems r have "p = c # q \<or> p \<in> set qs" by auto
    with Cons.IH r False show ?thesis by auto
  qed
qed

lemma split_on_absent: "d \<notin> set s \<Longrightarrow> split_on d s = [s]"
  by (induction s) auto

section \<open>Properties of the normalizer\<close>

text \<open>
  C1, as stated, fails: a list field that arrives as a list is stored as it is, so the
  input \<open>{"strengths": [null, ""]}\<close> gives a \<open>strengths\<close> field that holds a null and
  an empty string.
\<close>

theorem list_field_may_hold_null_and_empty:
  "out_field (normalize_analysis_response (\<lambda>v. [])
       (JDict [(k_strengths, JList [JNull, JStr []])])) k_strengths
     = Some (JList [JNull, JStr []])
   \<and> \<not> list_all nonempty_str [JNull, JStr []]"
  by (simp add: normalize_dict out_field_def keys_distinct spec_list_field_def)

text \<open>
  C1, amended: for every input mapping each of \<open>strengths\<close>, \<open>gaps\<close> and
  \<open>recommendations\<close> of the result is a list, never a bare string or null. When the input
  has no value or a string under the key, it is a list of non-empty strings; when the input
  has a list, it is that list unchanged, whatever its elements; when the input has a value
  of another type, it is the one-element list of its string representation.
\<close>

theorem list_fields_are_sequences:
  assumes "key \<in> {k_strengths, k_gaps, k_recommendations}"
  shows "\<exists>xs. out_field (normalize_analysis_response ts (JDict kvs)) key = Some (JList xs) \<and>
           (case map_of kvs key of
              None \<Rightarrow> xs = []
            | Some (JStr s) \<Rightarrow> list_all nonempty_str xs
            | Some (JList ys) \<Rightarrow> xs = ys
            | Some v \<Rightarrow> xs = [JStr (ts v)])"
proof -
  have "case map_of kvs key of
          None \<Rightarrow> spec_list_field ts (map_of kvs key) = []
        | Some (JStr s) \<Rightarrow> list_all nonempty_str (spec_list_field ts (map_of kvs key))
        | Some (JList ys) \<Rightarrow> spec_list_field ts (map_of kvs key) = ys
        | Some v \<Rightarrow> spec_list_field ts (map_of kvs key) = [JStr (ts v)]"
    by (simp add: spec_list_field_def spec_split_nonempty split: option.splits json.splits)
  with out_field_list [OF assms] show ?thesis by blast
qed

text \<open>The amended C1 at the input \<open>{"gaps": "SQL; ;Go"}\<close>.\<close>

theorem list_fields_are_sequences_witness:
  "k_gaps \<in> {k_strengths, k_gaps, k_recommendations} \<and>
   (\<exists>xs. out_field (normalize_analysis_response (\<lambda>v. lit ''None'')
              (JDict [(k_gaps, JStr (lit ''SQL; ;Go''))])) k_gaps = Some (JList xs) \<and>
          list_all nonempty_str xs)"
  using list_fields_are_sequences [of k_gaps "\<lambda>v. lit ''None''" "[(k_gaps, JStr (lit ''SQL; ;Go''))]"]
  by simp

text \<open>
  C2: a non-blank string under a list key is split on the first delimiter that occurs in
  it, in the order newline, semicolon, comma, each part trimmed and the empty parts
  dropped; with none of the three in it, the result is the whole string alone. The
  \<open>if\<close> chain of the source and the priority search agree. What \<open>split_on\<close> computes
  is fixed by \<open>split_on_join\<close> and \<open>split_on_free\<close>.
\<close>

theorem string_field_split_by_first_delimiter:
  assumes "key \<in> {k_strengths, k_gaps, k_recommendations}"
    and "map_of kvs key = Some (JStr s)"
    and "strip s \<noteq> []"
  shows "out_field (normalize_analysis_response ts (JDict kvs)) key = Some (JList (spec_split s)) \<and>
         spec_split s =
           (if newline \<in> set s then trimmed_parts newline s
            else if semicolon \<in> set s then trimmed_parts semicolon s
            else if comma \<in> set s then trimmed_parts comma s
            else [JStr s])"
  using assms by (simp add: out_field_list spec_list_field_def spec_split_def)

text \<open>C2 at a string with all three delimiters: only the newlines split it.\<close>

theorem string_field_split_by_first_delimiter_witness:
  "k_strengths \<in> {k_strengths, k_gaps, k_recommendations} \<and>
   map_of [(k_strengths, JStr (lit ''a, b; c\<newline> d ; e\<newline> ''))] k_strengths
     = Some (JStr (lit ''a, b; c\<newline> d ; e\<newline> '')) \<and>
   strip (lit ''a, b; c\<newline> d ; e\<newline> '') \<noteq> [] \<and>
   out_field (normalize_analysis_response (\<lambda>v. lit ''None'')
       (JDict [(k_strengths, JStr (lit ''a, b; c\<newline> d ; e\<newline> ''))])) k_strengths
     = Some (JList [JStr (lit ''a, b; c''), JStr (lit ''d ; e'')])"
proof -
  have s: "strip (lit ''a, b; c\<newline> d ; e\<newline> '') \<noteq> []"
    by (simp add: strip_def lit_def isspace_def)
  have v: "spec_split (lit ''a, b; c\<newline> d ; e\<newline> '') =
             [JStr (lit ''a, b; c''), JStr (lit ''d ; e'')]"
    by (simp add: spec_split_def trimmed_parts_def strip_def lit_def isspace_def newline_def)
  show ?thesis
    using s v string_field_split_by_first_delimiter
      [of k_strengths "[(k_strengths, JStr (lit ''a, b; c\<newline> d ; e\<newline> ''))]"
          "lit ''a, b; c\<newline> d ; e\<newline> ''" "\<lambda>v. lit ''None''"]
    by simp
qed

text \<open>
  C3: an empty or whitespace-only string under a list key gives the empty list; an absent
  list key gives the empty list, and an absent \<open>match_explanation\<close> the empty string.
\<close>

theorem blank_and_absent_fields_default:
  assumes "key \<in> {k_strengths, k_gaps, k_recommendations}"
  shows "(map_of kvs key = Some (JStr s) \<and> strip s = [] \<longrightarrow>
            out_field (normalize_analysis_response ts (JDict kvs)) key = Some (JList [])) \<and>
         (map_of kvs key = None \<longrightarrow>
            out_field (normalize_analysis_response ts (JDict kvs)) key = Some (JList [])) \<and>
         (map_of kvs k_match_explanation = None \<longrightarrow>
            out_field (normalize_analysis_response ts (JDict kvs)) k_match_explanation = Some (JStr []))"
  using assms
  by (simp add: out_field_list out_field_explanation spec_list_field_def spec_explanation_def)

text \<open>C3 at the input \<open>{"gaps": " \n "}\<close>: a blank field and three absent ones.\<close>

theorem blank_and_absent_fields_default_witness:
  "k_gaps \<in> {k_strengths, k_gaps, k_recommendations} \<and>
   k_strengths \<in> {k_strengths, k_gaps, k_recommendations} \<and>
   map_of [(k_gaps, JStr (lit '' \<newline> ''))] k_gaps = Some (JStr (lit '' \<newline> '')) \<and>
   strip (lit '' \<newline> '') = [] \<and>
   map_of [(k_gaps, JStr (lit '' \<newline> ''))] k_strengths = None \<and>
   map_of [(k_gaps, JStr (lit '' \<newline> ''))] k_match_explanation = None \<and>
   out_field (normalize_analysis_response (\<lambda>v. lit ''None'')
       (JDict [(k_gaps, JStr (lit '' \<newline> ''))])) k_gaps = Some (JList []) \<and>
   out_field (normalize_analysis_response (\<lambda>v. lit ''None'')
       (JDict [(k_gaps, JStr (lit '' \<newline> ''))])) k_strengths = Some (JList []) \<and>
   out_field (normalize_analysis_response (\<lambda>v. lit ''None'')
       (JDict [(k_gaps, JStr (lit '' \<newline> ''))])) k_match_explanation = Some (JStr [])"
proof -
  have s: "strip (lit '' \<newline> '') = []"
    by (simp add: strip_def lit_def isspace_def)
  show ?thesis
    using s
      blank_and_absent_fields_default
        [of k_gaps "[(k_gaps, JStr (lit '' \<newline> ''))]" "lit '' \<newline> ''" "\<lambda>v. lit ''None''"]
      blank_and_absent_fields_default
        [of k_strengths "[(k_gaps, JStr (lit '' \<newline> ''))]" "lit '' \<newline> ''" "\<lambda>v. lit ''None''"]
    by (simp add: keys_distinct)
qed

text \<open>
  C4: the normalizer is idempotent. On every input mapping it returns a result, and
  normalizing that result returns it again.
\<close>

theorem normalizer_idempotent:
  "\<exists>out. normalize_analysis_response ts (JDict kvs) = Inr out \<and>
         normalize_analysis_response ts out = Inr out"
  by (simp add: normalize_dict keys_distinct spec_list_field_def spec_explanation_def)

text \<open>
  C9: on every input mapping the result has exactly the keys \<open>match_explanation\<close>,
  \<open>strengths\<close>, \<open>gaps\<close> and \<open>recommendations\<close>, once each; no other key of the input
  is in it.
\<close>

theorem normalizer_output_keys:
  "\<exists>out. normalize_analysis_response ts (JDict kvs) = Inr (JDict out) \<and>
         map fst out = [k_match_explanation, k_strengths, k_gaps, k_recommendations] \<and>
         dom (map_of out) = {k_match_explanation, k_strengths, k_gaps, k_recommendations}"
  by (auto simp add: normalize_dict keys_distinct)

section \<open>Properties of the prompt builder\<close>

lemma field_line_dict: "field_line ts (JDict d) lk = Inr (field_text ts d lk)"
  by (simp add: field_line_def field_text_def bind_exc_def py_format_def lit_def split: option.splits)

lemma collect_fields_dict:
  "collect (map (field_line ts (JDict d)) lks) = Inr (map (field_text ts d) lks)"
  by (induction lks) (simp_all add: field_line_dict bind_exc_def)

text \<open>With mappings for the job posting and the profile no read fails.\<close>

lemma build_prompt_dict:
  "build_prompt ts (JDict j) (JDict m) mp =
     Inr ([newline] @
          unlines (intro_lines @
                   [lit ''JOB POSTING:''] @ map (field_text ts j) job_fields @ [lit ''''] @
                   [lit ''YOUR PROFILE:''] @ map (field_text ts m) profile_fields @ [lit ''''] @
                   match_lines ts mp @
                   [lit ''MATCHING ALGORITHM COMPONENTS:''] @ algorithm_lines @ [lit ''''] @
                   task_lines ts mp @
                   format_lines))"
  by (simp add: build_prompt_def collect_fields_dict bind_exc_def)

lemma unlines_append: "unlines (xs @ ys) = unlines xs @ unlines ys"
  by (simp add: unlines_def)

lemma component_headings:
  "list_all2 prefix (map component_heading spec_components) algorithm_lines"
  by (simp add: spec_components_def component_heading_def algorithm_lines_def dec.simps lit_def)

lemma response_headings:
  "list_all2 prefix (map response_field_heading spec_response_fields) (take 4 (tl format_lines))"
  by (simp add: spec_response_fields_def response_field_heading_def format_lines_def lit_def)

lemma format_lines_rest:
  "drop 4 (tl format_lines) =
     [lit '''',
      lit ''IMPORTANT: strengths, gaps, and recommendations MUST be arrays of strings, not single strings or other formats.'']"
  by (simp add: format_lines_def)

lemma weights_total: "sum_list (map (\<lambda>c. snd (snd c)) spec_components) = 100"
  by (simp add: spec_components_def)

lemma algorithm_in_prompt:
  "sublist (unlines algorithm_lines)
     ([newline] @ unlines (a @ b @ c @ d @ e @ f @ g @ h @ i @ algorithm_lines @ r))"
proof -
  have "[newline] @ unlines (a @ b @ c @ d @ e @ f @ g @ h @ i @ algorithm_lines @ r) =
        ([newline] @ unlines (a @ b @ c @ d @ e @ f @ g @ h @ i)) @ unlines algorithm_lines @ unlines r"
    by (simp add: unlines_append)
  then show ?thesis
    by (simp only: sublist_appendI)
qed

text \<open>
  C7, as stated, fails in one word: the prompt built for the empty request holds the
  algorithm section, and that section lists eight numbered components, not seven.
\<close>

theorem prompt_lists_eight_components_not_seven:
  "(case build_prompt (\<lambda>v. []) (JDict []) (JDict []) (JInt 72) of
      Inl x \<Rightarrow> False
    | Inr p \<Rightarrow> sublist (unlines algorithm_lines) p) \<and>
   length algorithm_lines = 8 \<and> length algorithm_lines \<noteq> 7"
proof -
  have "length algorithm_lines = 8"
    by (simp add: algorithm_lines_def)
  moreover have "case build_prompt (\<lambda>v. []) (JDict []) (JDict []) (JInt 72) of
      Inl x \<Rightarrow> False
    | Inr p \<Rightarrow> sublist (unlines algorithm_lines) p"
    by (simp only: build_prompt_dict sum.case algorithm_in_prompt append_assoc)
  ultimately show ?thesis by simp
qed

text \<open>
  C7, amended: the prompt is a function of the job posting, the profile and the match
  percentage alone. With mappings for the job posting and the profile the builder always
  returns: every labelled line shows the value under its key, or \<open>N/A\<close> when the key is
  absent. The prompt lists the eight components of the matching algorithm, numbered, with
  the weights 30, 15, 10, 15, 15, 5, 5 and 5 percent, which sum to 100, and it asks for
  exactly four fields, \<open>match_explanation\<close> a string and the other three arrays of
  strings.
\<close>

theorem prompt_builder_fixed_template:
  "build_prompt ts (JDict j) (JDict m) mp =
     Inr ([newline] @
          unlines (intro_lines @
                   [lit ''JOB POSTING:''] @ map (field_text ts j) job_fields @ [lit ''''] @
                   [lit ''YOUR PROFILE:''] @ map (field_text ts m) profile_fields @ [lit ''''] @
                   match_lines ts mp @
                   [lit ''MATCHING ALGORITHM COMPONENTS:''] @ algorithm_lines @ [lit ''''] @
                   task_lines ts mp @
                   format_lines)) \<and>
   list_all2 prefix (map component_heading spec_components) algorithm_lines \<and>
   length spec_components = 8 \<and>
   map (\<lambda>c. snd (snd c)) spec_components = [30, 15, 10, 15, 15, 5, 5, 5] \<and>
   sum_list (map (\<lambda>c. snd (snd c)) spec_components) = 100 \<and>
   list_all2 prefix (map response_field_heading spec_response_fields) (take 4 (tl format_lines)) \<and>
   length spec_response_fields = 4 \<and>
   drop 4 (tl format_lines) =
     [lit '''',
      lit ''IMPORTANT: strengths, gaps, and recommendations MUST be arrays of strings, not single strings or other formats.'']"
proof -
  have "length spec_components = 8"
    and "map (\<lambda>c. snd (snd c)) spec_components = [30, 15, 10, 15, 15, 5, 5, 5]"
    and "length spec_response_fields = 4"
    by (simp_all add: spec_components_def spec_response_fields_def)
  with build_prompt_dict component_headings weights_total response_headings format_lines_rest
  show ?thesis by blast
qed

section \<open>Properties of the analysis operation and the endpoint\<close>

lemma truthy_dict_with_key: "map_of kvs k = Some v \<Longrightarrow> truthy (JDict kvs)"
  by (cases kvs) auto


lemma get_nested_not_dict:
  "map_of kvs k_data = Some v \<Longrightarrow> \<not> is_dict v \<Longrightarrow>
   get_nested (JDict kvs) key dflt = Inl AttributeError"
  by (cases v) (simp_all add: get_nested_def bind_exc_def)











text \<open>
  C10: with a credential configured and a body that has a \<open>data\<close> key whose value is
  not a mapping, reading the nested fields raises and the handler answers 500 with the
  message of the exception: neither 400 nor a success envelope, and nothing is sent to
  the completion service.
\<close>

theorem non_mapping_data_is_server_error:
  assumes "\<not> key_missing e"
    and "map_of kvs k_data = Some v"
    and "\<not> is_dict v"
  shows "analyze_match e (Inr (JDict kvs)) =
           (\<lparr>status_code = 500, body = JDict [(k_error, JStr (exc_str e AttributeError))]\<rparr>, [])"
  using assms truthy_dict_with_key [OF assms(2)]
  by (simp add: analyze_match_def analyze_job_match_def request_prompt_def
      get_nested_not_dict bind_exc_def server_error_response_def error_body_def)

text \<open>C10 at the body \<open>{"data": null}\<close>.\<close>

theorem non_mapping_data_is_server_error_witness:
  "\<not> key_missing
     \<lparr>openai_api_key = Some (lit ''sk-test''), py_str = (\<lambda>v. []),
      exc_str = (\<lambda>x. lit ''NoneType object has no attribute get''),
      json_loads = (\<lambda>t. None), chat_completion = (\<lambda>p. Inl TypeError)\<rparr> \<and>
   map_of [(k_data, JNull)] k_data = Some JNull \<and>
   \<not> is_dict JNull \<and>
   analyze_match
     \<lparr>openai_api_key = Some (lit ''sk-test''), py_str = (\<lambda>v. []),
      exc_str = (\<lambda>x. lit ''NoneType object has no attribute get''),
      json_loads = (\<lambda>t. None), chat_completion = (\<lambda>p. Inl TypeError)\<rparr>
     (Inr (JDict [(k_data, JNull)]))
   = (\<lparr>status_code = 500,
       body = JDict [(k_error, JStr (lit ''NoneType object has no attribute get''))]\<rparr>, [])"
proof -
  let ?e = "\<lparr>openai_api_key = Some (lit ''sk-test''), py_str = (\<lambda>v. []),
      exc_str = (\<lambda>x. lit ''NoneType object has no attribute get''),
      json_loads = (\<lambda>t. None), chat_completion = (\<lambda>p. Inl TypeError)\<rparr>"
  have k: "\<not> key_missing ?e"
    by (simp add: key_missing_def lit_def)
  show ?thesis
    using k non_mapping_data_is_server_error [of ?e "[(k_data, JNull)]" JNull]
    by simp
qed

end
